theory Spec2Isabelle
  imports Complex_Main "HOL-Library.AList"
begin

section \<open>The client-side monitoring layer of the TanStack demo application\<close>

text \<open>
  A shallow embedding of the monitoring code of the demo: the configuration
  (\<^verbatim>\<open>config/monitoring.ts\<close>), the utilities (\<^verbatim>\<open>utils/monitoring.ts\<close>), the global error
  handler (\<^verbatim>\<open>services/errorHandler.ts\<close>) and the Web Vitals collector
  (\<^verbatim>\<open>services/webVitals.ts\<close>).

  Conventions of the embedding.
  \<^item> JavaScript numbers that hold times (\<^verbatim>\<open>Date.now()\<close>, durations, HTTP statuses) are
    \<open>int\<close>; metric values, thresholds and the sample rate are \<open>real\<close>. The comparisons
    of the code are comparisons of the numbers denoted; \<^verbatim>\<open>NaN\<close> is not a value of the model.
  \<^item> An optional string (\<^verbatim>\<open>apiEndpoint?: string\<close>) is a \<open>string option\<close>; JavaScript
    truthiness of it is \<open>truthy\<close>.
  \<^item> The browser is a record \<open>world\<close>: the clock, the two storages, the calls that
    reached the network transport and the console. Code that mutates it takes the world
    and returns the new one.
  \<^item> The calls into the external Sentry library have no effect on anything modelled here
    and are left out.
\<close>

subsection \<open>Strings\<close>

text \<open>\<^verbatim>\<open>s.startsWith(p)\<close>, and the test of a regular expression that is a literal text.\<close>

fun startsWith :: "string \<Rightarrow> string \<Rightarrow> bool" where
  "startsWith s [] = True"
| "startsWith [] (p # ps) = False"
| "startsWith (c # cs) (p # ps) = (c = p \<and> startsWith cs ps)"

fun includes_str :: "string \<Rightarrow> string \<Rightarrow> bool" where
  "includes_str [] p = (p = [])"
| "includes_str (c # cs) p = (startsWith (c # cs) p \<or> includes_str cs p)"

text \<open>The decimal text of a number, as a template literal prints an integer.\<close>

fun show_nat :: "nat \<Rightarrow> string" where
  "show_nat n =
     (if n < 10 then [char_of (48 + n)]
      else show_nat (n div 10) @ [char_of (48 + n mod 10)])"

declare show_nat.simps [simp del]

definition show_int :: "int \<Rightarrow> string" where
  "show_int i = (if i < 0 then CHR ''-'' # show_nat (nat (- i)) else show_nat (nat i))"

text \<open>JavaScript truthiness of an optional string: \<^verbatim>\<open>undefined\<close>, \<^verbatim>\<open>null\<close> and \<^verbatim>\<open>''\<close> are falsy.\<close>

fun truthy :: "string option \<Rightarrow> bool" where
  "truthy None = False"
| "truthy (Some s) = (s \<noteq> [])"

subsection \<open>Configuration (\<^verbatim>\<open>config/monitoring.ts\<close>)\<close>

datatype environment = development | production | staging

record MonitoringConfig =
  enableErrorTracking :: bool
  enablePerformanceTracking :: bool
  enableWebVitals :: bool
  sampleRate :: real
  environment :: environment
  apiEndpoint :: "string option"
  sentryDsn :: "string option"

text \<open>
  \<^verbatim>\<open>monitoringConfig\<close> reads the build environment: \<^verbatim>\<open>import.meta.env.PROD\<close> (\<open>isProd\<close>),
  \<^verbatim>\<open>VITE_MONITORING_API_ENDPOINT\<close> and \<^verbatim>\<open>VITE_SENTRY_DSN\<close> are its parameters here.
\<close>

definition monitoringConfig :: "bool \<Rightarrow> string option \<Rightarrow> string option \<Rightarrow> MonitoringConfig" where
  "monitoringConfig isProd endpoint dsn =
     \<lparr> enableErrorTracking = True,
       enablePerformanceTracking = True,
       enableWebVitals = True,
       sampleRate = (if isProd then 0.1 else 1.0),
       environment = (if isProd then production else development),
       apiEndpoint = endpoint,
       sentryDsn = dsn \<rparr>"

record threshold =
  good :: real
  needsImprovement :: real

definition performanceThresholds :: "(string \<times> threshold) list" where
  "performanceThresholds =
     [ (''LCP'', \<lparr> good = 2500, needsImprovement = 4000 \<rparr>),
       (''FID'', \<lparr> good = 100, needsImprovement = 300 \<rparr>),
       (''CLS'', \<lparr> good = 0.1, needsImprovement = 0.25 \<rparr>),
       (''FCP'', \<lparr> good = 1800, needsImprovement = 3000 \<rparr>),
       (''TTFB'', \<lparr> good = 800, needsImprovement = 1800 \<rparr>),
       (''apiResponse'', \<lparr> good = 1000, needsImprovement = 3000 \<rparr>),
       (''pageLoad'', \<lparr> good = 3000, needsImprovement = 5000 \<rparr>),
       (''routeChange'', \<lparr> good = 500, needsImprovement = 1000 \<rparr>) ]"

text \<open>
  The regular expressions of \<^verbatim>\<open>errorFilters\<close> are literal texts, three of them
  unanchored (\<^verbatim>\<open>/Script error/\<close>: the text occurs somewhere) and two anchored at the
  start (\<^verbatim>\<open>/^chrome:\/\//\<close>).
\<close>

datatype pattern = Contains string | Anchored string

fun test :: "pattern \<Rightarrow> string \<Rightarrow> bool" where
  "test (Contains p) s = includes_str s p"
| "test (Anchored p) s = startsWith s p"

record error_filters =
  ignoreMessages :: "pattern list"
  ignoreUrls :: "pattern list"
  ignoreErrors :: "string list"

definition errorFilters :: error_filters where
  "errorFilters =
     \<lparr> ignoreMessages =
         [ Contains ''Script error'',
           Contains ''Non-Error promise rejection captured'',
           Contains ''ResizeObserver loop limit exceeded'',
           Contains ''ChunkLoadError'' ],
       ignoreUrls =
         [ Contains ''extensions/'',
           Anchored ''chrome://'',
           Anchored ''moz-extension://'' ],
       ignoreErrors = [ ''Network Error'', ''NetworkError'', ''AbortError'' ] \<rparr>"

subsection \<open>The rating of a Web Vitals value (\<^verbatim>\<open>WebVitalsCollector.getRating\<close>)\<close>

datatype rating = Good | NeedsImprovement | Poor

definition getRating :: "string \<Rightarrow> real \<Rightarrow> rating" where
  "getRating name v =
     (case map_of performanceThresholds name of
        None \<Rightarrow> Good
      | Some threshold \<Rightarrow>
          if v \<le> good threshold then Good
          else if v \<le> needsImprovement threshold then NeedsImprovement
          else Poor)"

subsection \<open>The records of \<^verbatim>\<open>types/monitoring.d.ts\<close>\<close>

text \<open>
  Field names are those of the source; where two interfaces share a field name the
  fields carry a prefix (\<open>ne_\<close>, \<open>ev_\<close>, \<open>pm_\<close>, \<open>ei_\<close>, \<open>wv_\<close>, \<open>rs_\<close>).
\<close>

record js_error =
  message :: string
  stack :: "string option"

record UserSession =
  sessionId :: string
  userId :: "string option"
  startTime :: int
  lastActivity :: int
  pageViews :: int
  errors :: int

record ErrorInfo =
  ei_message :: string
  ei_stack :: "string option"
  componentStack :: "string option"
  errorBoundary :: "string option"
  ei_timestamp :: int
  ei_url :: string
  ei_userAgent :: string
  ei_sessionId :: string

record PerformanceMetric =
  pm_name :: string
  pm_value :: real
  pm_timestamp :: int
  pm_url :: string
  pm_sessionId :: string

record WebVitalsMetric =
  wv_name :: string
  wv_value :: real
  wv_delta :: real
  wv_id :: string
  wv_timestamp :: int

record NetworkError =
  url :: string
  "method" :: string
  status :: int
  statusText :: string
  timestamp :: int
  duration :: int
  ne_sessionId :: string

text \<open>A value of type \<^verbatim>\<open>any\<close> in an event's properties or an error's context.\<close>

datatype jsval = S string | N real | Undefined | Obj "(string \<times> jsval) list"

record CustomEvent =
  ev_name :: string
  properties :: "(string \<times> jsval) list"
  ev_timestamp :: int
  ev_sessionId :: string

subsection \<open>The browser\<close>

text \<open>
  A storage area (\<^verbatim>\<open>sessionStorage\<close>, \<^verbatim>\<open>localStorage\<close>) is a list of keys with their values.
\<close>

type_synonym 'v storage = "(string \<times> 'v) list"

definition getItem :: "'v storage \<Rightarrow> string \<Rightarrow> 'v option" where
  "getItem st key = map_of st key"

definition setItem :: "string \<Rightarrow> 'v \<Rightarrow> 'v storage \<Rightarrow> 'v storage" where
  "setItem key v st = AList.update key v st"

definition removeItem :: "string \<Rightarrow> 'v storage \<Rightarrow> 'v storage" where
  "removeItem key st = AList.delete key st"

definition keys :: "'v storage \<Rightarrow> string list" where
  "keys st = map fst st"

text \<open>
  The texts in \<^verbatim>\<open>localStorage\<close> are kept by what \<^verbatim>\<open>JSON.parse\<close> makes of them:
  \<open>Session s\<close> is the text \<^verbatim>\<open>JSON.stringify(s)\<close> of a session object, \<open>Unparsable t\<close> is a
  text \<open>t\<close> on which \<^verbatim>\<open>JSON.parse\<close> throws (the empty text among them, which is also
  falsy). Texts that parse to something that is not a session are outside the model.
\<close>

datatype stored = Session UserSession | Unparsable string

text \<open>
  What a call of a network transport answers once it settles, and what an \<^verbatim>\<open>async\<close>
  function has returned when control comes back to its caller.
\<close>

datatype 'a settled = Fulfilled 'a | Rejected js_error

datatype 'a promise = Pending | Settled "'a settled"

record response =
  rs_status :: int
  rs_statusText :: string
  rs_content :: string

text \<open>\<^verbatim>\<open>Response.ok\<close>: the status is in the range 200 to 299.\<close>

definition ok :: "response \<Rightarrow> bool" where
  "ok r = (200 \<le> rs_status r \<and> rs_status r \<le> 299)"

datatype error_report = OfNetworkError NetworkError | OfErrorInfo ErrorInfo

record web_vital_report =
  wr_metric :: WebVitalsMetric
  wr_rating :: rating
  wr_sessionId :: string
  wr_url :: string
  wr_userAgent :: string

datatype body =
    MetricBody PerformanceMetric
  | ErrorBody error_report
  | EventBody CustomEvent
  | WebVitalBody web_vital_report
  | TextBody string

text \<open>
  The arguments of \<^verbatim>\<open>fetch(input, init)\<close>: the input is a URL text or a \<^verbatim>\<open>Request\<close>
  object (of which the wrapper reads \<^verbatim>\<open>url\<close>), \<^verbatim>\<open>init\<close> may carry a method and a body.
\<close>

datatype resource = UrlString string | RequestObject string

record fetch_args =
  resource :: resource
  init_method :: "string option"
  init_body :: "body option"

text \<open>
  The world: \<open>now\<close> is what \<^verbatim>\<open>Date.now()\<close> returns, \<open>random\<close> the texts that successive
  \<^verbatim>\<open>Math.random().toString(36).substr(2, 9)\<close> produce (the empty text when the list is
  used up, as for \<^verbatim>\<open>Math.random() = 0\<close>), \<open>href\<close> is \<^verbatim>\<open>window.location.href\<close>,
  \<open>network\<close> the calls handed to the network transport, \<open>console\<close> the first argument of
  each \<^verbatim>\<open>console.error\<close>. The last two fields are observations: the records that
  \<^verbatim>\<open>recordNetworkError\<close> and \<^verbatim>\<open>recordCustomEvent\<close> have built, in order.
\<close>

record world =
  now :: int
  random :: "string list"
  href :: string
  userAgent :: string
  sessionStorage :: "string storage"
  localStorage :: "stored storage"
  network :: "fetch_args list"
  console :: "string list"
  networkErrors :: "NetworkError list"
  customEvents :: "CustomEvent list"

subsection \<open>Sessions (\<^verbatim>\<open>utils/monitoring.ts\<close>)\<close>

definition generateId :: "world \<Rightarrow> string \<times> world" where
  "generateId w =
     (show_int (now w) @ ''-'' @ (case random w of [] \<Rightarrow> [] | r # _ \<Rightarrow> r),
      w\<lparr>random := tl (random w)\<rparr>)"

definition getSessionId :: "world \<Rightarrow> string \<times> world" where
  "getSessionId w =
     (let sessionId = getItem (sessionStorage w) ''monitoring_session_id'' in
      if \<not> truthy sessionId then
        (let (sessionId, w1) = generateId w in
         (sessionId,
          w1\<lparr>sessionStorage := setItem ''monitoring_session_id'' sessionId (sessionStorage w1)\<rparr>))
      else (the sessionId, w))"

text \<open>
  A function that can throw returns \<open>Inl\<close> of the exception or \<open>Inr\<close> of its result,
  together with the world as it is at that point. The only exception of the model is the
  \<^verbatim>\<open>SyntaxError\<close> of \<^verbatim>\<open>JSON.parse\<close>.
\<close>

datatype exn = SyntaxError

definition getUserSession :: "world \<Rightarrow> (exn + UserSession) \<times> world" where
  "getUserSession w =
     (let (sessionId, w1) = getSessionId w;
          key = ''session_'' @ sessionId;
          newSession = \<lparr> sessionId = sessionId, userId = None, startTime = now w1,
                         lastActivity = now w1, pageViews = 1, errors = 0 \<rparr>;
          created = (Inr newSession,
                     w1\<lparr>localStorage := setItem key (Session newSession) (localStorage w1)\<rparr>)
      in case getItem (localStorage w1) key of
           None \<Rightarrow> created
         | Some (Unparsable t) \<Rightarrow> if t = [] then created else (Inl SyntaxError, w1)
         | Some (Session stored) \<Rightarrow>
             (let session = stored\<lparr>lastActivity := now w1\<rparr> in
              (Inr session,
               w1\<lparr>localStorage := setItem key (Session session) (localStorage w1)\<rparr>)))"

datatype stat = pageView | error

definition updateSessionStats :: "stat \<Rightarrow> world \<Rightarrow> (exn + unit) \<times> world" where
  "updateSessionStats kind w =
     (case getUserSession w of
        (Inl e, w1) \<Rightarrow> (Inl e, w1)
      | (Inr session, w1) \<Rightarrow>
          (let session1 = (case kind of
                             pageView \<Rightarrow> session\<lparr>pageViews := pageViews session + 1\<rparr>
                           | error \<Rightarrow> session\<lparr>errors := errors session + 1\<rparr>);
               session2 = session1\<lparr>lastActivity := now w1\<rparr>
           in (Inr (),
               w1\<lparr>localStorage :=
                    setItem (''session_'' @ sessionId session2) (Session session2)
                      (localStorage w1)\<rparr>)))"

text \<open>
  \<^verbatim>\<open>cleanupExpiredSessions\<close>: \<open>sweep_key\<close> is the callback of its \<^verbatim>\<open>forEach\<close> over
  \<^verbatim>\<open>Object.keys(localStorage)\<close>. The function has no \<^verbatim>\<open>return\<close>: a call of it evaluates
  to \<^verbatim>\<open>undefined\<close>. An item that is missing or the empty text is read as \<^verbatim>\<open>'{}'\<close>, whose
  \<^verbatim>\<open>lastActivity\<close> is undefined, so that the comparison is false.
\<close>

definition sweep_key :: "int \<Rightarrow> int \<Rightarrow> string \<Rightarrow> stored storage \<Rightarrow> stored storage" where
  "sweep_key now' maxAge key ls =
     (if startsWith key ''session_'' then
        (case getItem ls key of
           None \<Rightarrow> ls
         | Some (Unparsable t) \<Rightarrow> if t = [] then ls else removeItem key ls
         | Some (Session session) \<Rightarrow>
             if now' - lastActivity session > maxAge then removeItem key ls else ls)
      else ls)"

definition cleanupExpiredSessions :: "world \<Rightarrow> jsval \<times> world" where
  "cleanupExpiredSessions w =
     (let now' = now w;
          maxAge = 24 * 60 * 60 * 1000
      in (Undefined,
          w\<lparr>localStorage :=
               fold (sweep_key now' maxAge) (keys (localStorage w)) (localStorage w)\<rparr>))"

subsection \<open>The error filter\<close>

datatype error_or_string = AnError js_error | AString string

definition shouldIgnoreError :: "error_or_string \<Rightarrow> string option \<Rightarrow> bool" where
  "shouldIgnoreError err url' =
     (let msg = (case err of AString s \<Rightarrow> s | AnError e \<Rightarrow> message e) in
      if list_ex (\<lambda>pattern. test pattern msg) (ignoreMessages errorFilters) then True
      else if msg \<in> set (ignoreErrors errorFilters) then True
      else if truthy url' \<and> list_ex (\<lambda>pattern. test pattern (the url')) (ignoreUrls errorFilters)
        then True
      else False)"

definition formatErrorInfo ::
  "js_error \<Rightarrow> string option \<Rightarrow> string option \<Rightarrow> world \<Rightarrow> ErrorInfo \<times> world" where
  "formatErrorInfo err componentStack' errorBoundary' w =
     (let (sessionId, w1) = getSessionId w in
      (\<lparr> ei_message = message err, ei_stack = stack err,
         componentStack = componentStack', errorBoundary = errorBoundary',
         ei_timestamp = now w, ei_url = href w, ei_userAgent = userAgent w,
         ei_sessionId = sessionId \<rparr>, w1))"

subsection \<open>Delivery to the monitoring service\<close>

text \<open>
  \<^verbatim>\<open>window.fetch\<close> as the delivery functions call it: the call reaches the network
  transport with the arguments given (directly, or through the wrapper that the error
  handler installs, which hands its arguments on unchanged). The header
  \<^verbatim>\<open>Content-Type: application/json\<close> of every delivery is left out of \<open>fetch_args\<close>.
\<close>

definition fetch :: "fetch_args \<Rightarrow> world \<Rightarrow> world" where
  "fetch args w = w\<lparr>network := network w @ [args]\<rparr>"

text \<open>
  Each delivery function is \<^verbatim>\<open>async\<close>: it runs up to its \<^verbatim>\<open>await fetch(...)\<close> when it is
  called (the definition named as in the source, which returns the state of its promise),
  and its \<^verbatim>\<open>try/catch\<close> runs on when the call of \<^verbatim>\<open>fetch\<close> settles (the definition with
  the suffix \<open>_settled\<close>).
\<close>

definition sendMetricToService ::
  "MonitoringConfig \<Rightarrow> PerformanceMetric \<Rightarrow> world \<Rightarrow> unit promise \<times> world" where
  "sendMetricToService cfg metric w =
     (if \<not> truthy (apiEndpoint cfg) then (Settled (Fulfilled ()), w)
      else (Pending,
            fetch \<lparr> resource = UrlString (the (apiEndpoint cfg) @ ''/metrics''),
                    init_method = Some ''POST'',
                    init_body = Some (MetricBody metric) \<rparr> w))"

definition sendMetricToService_settled :: "response settled \<Rightarrow> world \<Rightarrow> unit settled \<times> world" where
  "sendMetricToService_settled answer w =
     (case answer of
        Fulfilled r \<Rightarrow> (Fulfilled (), w)
      | Rejected e \<Rightarrow> (Fulfilled (), w\<lparr>console := console w @ [''Failed to send metric:'']\<rparr>))"

definition sendErrorToService ::
  "MonitoringConfig \<Rightarrow> error_report \<Rightarrow> world \<Rightarrow> unit promise \<times> world" where
  "sendErrorToService cfg report w =
     (if \<not> truthy (apiEndpoint cfg) then (Settled (Fulfilled ()), w)
      else (Pending,
            fetch \<lparr> resource = UrlString (the (apiEndpoint cfg) @ ''/errors''),
                    init_method = Some ''POST'',
                    init_body = Some (ErrorBody report) \<rparr> w))"

definition sendErrorToService_settled :: "response settled \<Rightarrow> world \<Rightarrow> unit settled \<times> world" where
  "sendErrorToService_settled answer w =
     (case answer of
        Fulfilled r \<Rightarrow> (Fulfilled (), w)
      | Rejected e \<Rightarrow> (Fulfilled (), w\<lparr>console := console w @ [''Failed to send error:'']\<rparr>))"

definition sendEventToService ::
  "MonitoringConfig \<Rightarrow> CustomEvent \<Rightarrow> world \<Rightarrow> unit promise \<times> world" where
  "sendEventToService cfg event w =
     (if \<not> truthy (apiEndpoint cfg) then (Settled (Fulfilled ()), w)
      else (Pending,
            fetch \<lparr> resource = UrlString (the (apiEndpoint cfg) @ ''/events''),
                    init_method = Some ''POST'',
                    init_body = Some (EventBody event) \<rparr> w))"

definition sendEventToService_settled :: "response settled \<Rightarrow> world \<Rightarrow> unit settled \<times> world" where
  "sendEventToService_settled answer w =
     (case answer of
        Fulfilled r \<Rightarrow> (Fulfilled (), w)
      | Rejected e \<Rightarrow> (Fulfilled (), w\<lparr>console := console w @ [''Failed to send event:'']\<rparr>))"

text \<open>
  The recording functions build a record and hand it to a delivery function, whose
  promise they drop. \<^verbatim>\<open>console.log\<close> is not observed.
\<close>

definition recordPerformanceMetric :: "MonitoringConfig \<Rightarrow> string \<Rightarrow> real \<Rightarrow> world \<Rightarrow> world" where
  "recordPerformanceMetric cfg name v w =
     (if \<not> enablePerformanceTracking cfg then w
      else
        (let (sessionId, w1) = getSessionId w;
             metric = \<lparr> pm_name = name, pm_value = v, pm_timestamp = now w,
                        pm_url = href w, pm_sessionId = sessionId \<rparr>
         in snd (sendMetricToService cfg metric w1)))"

definition recordNetworkError ::
  "MonitoringConfig \<Rightarrow> string \<Rightarrow> string \<Rightarrow> int \<Rightarrow> string \<Rightarrow> int \<Rightarrow> world \<Rightarrow> world" where
  "recordNetworkError cfg url' method' status' statusText' duration' w =
     (let (sessionId, w1) = getSessionId w;
          networkError = \<lparr> url = url', method = method', status = status',
                           statusText = statusText', timestamp = now w,
                           duration = duration', ne_sessionId = sessionId \<rparr>
      in snd (sendErrorToService cfg (OfNetworkError networkError)
                (w1\<lparr>networkErrors := networkErrors w1 @ [networkError]\<rparr>)))"

definition recordCustomEvent ::
  "MonitoringConfig \<Rightarrow> string \<Rightarrow> (string \<times> jsval) list \<Rightarrow> world \<Rightarrow> world" where
  "recordCustomEvent cfg name props w =
     (let (sessionId, w1) = getSessionId w;
          event = \<lparr> ev_name = name, properties = props, ev_timestamp = now w,
                       ev_sessionId = sessionId \<rparr>
      in snd (sendEventToService cfg event (w1\<lparr>customEvents := customEvents w1 @ [event]\<rparr>)))"

subsection \<open>The global error handler (\<^verbatim>\<open>GlobalErrorHandler\<close>)\<close>

type_synonym "context" = "(string \<times> jsval) list"

text \<open>
  The handler object: its queue of \<^verbatim>\<open>{ error, context }\<close> entries and its cap. A new
  handler has an empty queue and \<^verbatim>\<open>maxQueueSize = 100\<close>.
\<close>

record GlobalErrorHandler =
  errorQueue :: "(js_error \<times> context) list"
  maxQueueSize :: nat

definition new_GlobalErrorHandler :: GlobalErrorHandler where
  "new_GlobalErrorHandler = \<lparr> errorQueue = [], maxQueueSize = 100 \<rparr>"

text \<open>\<^verbatim>\<open>shift()\<close> removes the first entry (and does nothing to an empty array).\<close>

definition addToErrorQueue :: "js_error \<Rightarrow> context \<Rightarrow> GlobalErrorHandler \<Rightarrow> GlobalErrorHandler" where
  "addToErrorQueue err ctx h =
     (let h1 = (if length (errorQueue h) \<ge> maxQueueSize h
                then h\<lparr>errorQueue := tl (errorQueue h)\<rparr> else h)
      in h1\<lparr>errorQueue := errorQueue h1 @ [(err, ctx)]\<rparr>)"

text \<open>\<^verbatim>\<open>slice(-50)\<close> keeps the last 50 entries.\<close>

definition cleanupErrorQueue :: "GlobalErrorHandler \<Rightarrow> GlobalErrorHandler" where
  "cleanupErrorQueue h =
     (if length (errorQueue h) > 50
      then h\<lparr>errorQueue := drop (length (errorQueue h) - 50) (errorQueue h)\<rparr>
      else h)"

definition lookup_prop :: "context \<Rightarrow> string \<Rightarrow> jsval" where
  "lookup_prop ctx key = (case map_of ctx key of None \<Rightarrow> Undefined | Some v \<Rightarrow> v)"

definition optional :: "string option \<Rightarrow> jsval" where
  "optional t = (case t of None \<Rightarrow> Undefined | Some x \<Rightarrow> S x)"

definition error_val :: "js_error \<Rightarrow> jsval" where
  "error_val e = Obj [(''message'', S (message e)), (''stack'', optional (stack e))]"

definition processError ::
  "MonitoringConfig \<Rightarrow> js_error \<Rightarrow> context \<Rightarrow> ErrorInfo \<Rightarrow> GlobalErrorHandler \<Rightarrow> world
     \<Rightarrow> (exn + unit) \<times> GlobalErrorHandler \<times> world" where
  "processError cfg err ctx errorInfo h w =
     (case updateSessionStats error w of
        (Inl e, w1) \<Rightarrow> (Inl e, h, w1)
      | (Inr u, w1) \<Rightarrow>
          (let h1 = addToErrorQueue err ctx h;
               w2 = recordCustomEvent cfg ''error_occurred''
                      [ (''message'', S (message err)),
                        (''stack'', optional (stack err)),
                        (''type'', lookup_prop ctx ''type''),
                        (''url'', S (href w1)) ] w1;
               w3 = (if environment cfg = development
                     then w2\<lparr>console := console w2 @ [''Global Error Handler:'', ''Context:'']\<rparr>
                     else w2)
           in (Inr (), h1, w3)))"

text \<open>
  \<^verbatim>\<open>reportError(error, context?)\<close>: the context \<^verbatim>\<open>{ ...context, type: 'manual_report' }\<close>
  is the given one (none given: the empty one) with its \<^verbatim>\<open>type\<close> set.
\<close>

definition reportError ::
  "MonitoringConfig \<Rightarrow> js_error \<Rightarrow> context \<Rightarrow> GlobalErrorHandler \<Rightarrow> world
     \<Rightarrow> (exn + unit) \<times> GlobalErrorHandler \<times> world" where
  "reportError cfg err ctx h w =
     (if \<not> shouldIgnoreError (AnError err) None then
        (let (errorInfo, w1) = formatErrorInfo err None (Some ''ManualReport'') w in
         processError cfg err (AList.update ''type'' (S ''manual_report'') ctx) errorInfo h w1)
      else (Inr (), h, w))"

text \<open>
  The listener of \<^verbatim>\<open>error\<close> events. An \<^verbatim>\<open>ErrorEvent\<close> carries the error thrown, if any,
  and where it was thrown; \<^verbatim>\<open>new Error(message)\<close> is an error with that message (the
  stack an engine attaches to it is not modelled).
\<close>

record ErrorEvent =
  ee_error :: "js_error option"
  ee_message :: string
  filename :: string
  lineno :: int
  colno :: int

definition new_Error :: "string \<Rightarrow> js_error" where
  "new_Error msg = \<lparr> message = msg, stack = None \<rparr>"

definition handleGlobalError ::
  "MonitoringConfig \<Rightarrow> ErrorEvent \<Rightarrow> GlobalErrorHandler \<Rightarrow> world
     \<Rightarrow> (exn + unit) \<times> GlobalErrorHandler \<times> world" where
  "handleGlobalError cfg event h w =
     (let err = (case ee_error event of Some e \<Rightarrow> e | None \<Rightarrow> new_Error (ee_message event)) in
      if shouldIgnoreError (AnError err) (Some (filename event)) then (Inr (), h, w)
      else
        (let (errorInfo, w1) =
               formatErrorInfo err
                 (Some (''at '' @ filename event @ '':'' @ show_int (lineno event) @ '':''
                          @ show_int (colno event)))
                 (Some ''GlobalErrorHandler'') w;
             ctx = [ (''filename'', S (filename event)),
                     (''lineno'', N (of_int (lineno event))),
                     (''colno'', N (of_int (colno event))),
                     (''type'', S ''javascript_error'') ]
         in processError cfg err ctx errorInfo h w1))"

text \<open>
  The listener of \<^verbatim>\<open>unhandledrejection\<close> events, for a promise rejected with an
  \<^verbatim>\<open>Error\<close> or with a text (\<^verbatim>\<open>String(reason)\<close> of a text is the text). The result says
  whether \<^verbatim>\<open>event.preventDefault()\<close> was called.
\<close>

datatype reason = ErrorReason js_error | TextReason string

definition handleUnhandledRejection ::
  "MonitoringConfig \<Rightarrow> reason \<Rightarrow> GlobalErrorHandler \<Rightarrow> world
     \<Rightarrow> (exn + bool) \<times> GlobalErrorHandler \<times> world" where
  "handleUnhandledRejection cfg reason' h w =
     (let err = (case reason' of ErrorReason e \<Rightarrow> e | TextReason t \<Rightarrow> new_Error t) in
      if shouldIgnoreError (AnError err) None then (Inr False, h, w)
      else
        (let (errorInfo, w1) = formatErrorInfo err None (Some ''GlobalErrorHandler'') w;
             ctx = [ (''type'', S ''unhandled_promise_rejection''),
                     (''reason'', (case reason' of
                                     ErrorReason e \<Rightarrow> error_val e
                                   | TextReason t \<Rightarrow> S t)) ]
         in case processError cfg err ctx errorInfo h w1 of
              (Inl e, h1, w2) \<Rightarrow> (Inl e, h1, w2)
            | (Inr u, h1, w2) \<Rightarrow> (Inr (environment cfg = production), h1, w2)))"



subsection \<open>The wrapper around \<^verbatim>\<open>window.fetch\<close> (\<^verbatim>\<open>setupNetworkErrorMonitoring\<close>)\<close>

text \<open>
  The wrapper is \<^verbatim>\<open>async\<close>. \<open>wrappedFetch\<close> is its run up to \<^verbatim>\<open>await originalFetch(...args)\<close>:
  it reads the clock, the URL and the method (its local variables, \<open>fetch_locals\<close>) and
  calls the transport. \<open>wrappedFetch_settled\<close> is its run from there, once the transport
  has answered with a response (\<open>Fulfilled\<close>) or has failed (\<open>Rejected\<close>), in the world as it
  is then; its result is what the caller of the wrapped \<^verbatim>\<open>fetch\<close> receives.
\<close>

record fetch_locals =
  fl_startTime :: int
  fl_url :: string
  fl_method :: string

definition wrappedFetch :: "fetch_args \<Rightarrow> world \<Rightarrow> fetch_locals \<times> world" where
  "wrappedFetch args w =
     (\<lparr> fl_startTime = now w,
        fl_url = (case resource args of UrlString t \<Rightarrow> t | RequestObject u \<Rightarrow> u),
        fl_method = (if truthy (init_method args) then the (init_method args) else ''GET'') \<rparr>,
      w\<lparr>network := network w @ [args]\<rparr>)"

definition wrappedFetch_settled ::
  "MonitoringConfig \<Rightarrow> fetch_locals \<Rightarrow> response settled \<Rightarrow> world \<Rightarrow> response settled \<times> world" where
  "wrappedFetch_settled cfg l answer w =
     (case answer of
        Fulfilled response \<Rightarrow>
          (let duration' = now w - fl_startTime l;
               w1 = (if duration' > 5000
                     then recordCustomEvent cfg ''slow_request''
                            [ (''url'', S (fl_url l)),
                              (''method'', S (fl_method l)),
                              (''duration'', N (of_int duration')),
                              (''status'', N (of_int (rs_status response))) ] w
                     else w);
               w2 = (if \<not> ok response
                     then recordNetworkError cfg (fl_url l) (fl_method l) (rs_status response)
                            (rs_statusText response) duration' w1
                     else w1)
           in (Fulfilled response, w2))
      | Rejected e \<Rightarrow>
          (let duration' = now w - fl_startTime l;
               w1 = recordNetworkError cfg (fl_url l) (fl_method l) 0 ''Network Error'' duration' w
           in (Rejected e, w1)))"

subsection \<open>The Web Vitals collector (\<^verbatim>\<open>WebVitalsCollector\<close>)\<close>

record WebVitalsCollector =
  metrics :: "WebVitalsMetric list"

definition rating_text :: "rating \<Rightarrow> string" where
  "rating_text r =
     (case r of Good \<Rightarrow> ''good'' | NeedsImprovement \<Rightarrow> ''needs-improvement'' | Poor \<Rightarrow> ''poor'')"

definition threshold_val :: "string \<Rightarrow> jsval" where
  "threshold_val name =
     (case map_of performanceThresholds name of
        None \<Rightarrow> Undefined
      | Some t \<Rightarrow> Obj [(''good'', N (good t)), (''needsImprovement'', N (needsImprovement t))])"

definition sendMetric ::
  "MonitoringConfig \<Rightarrow> WebVitalsMetric \<Rightarrow> rating \<Rightarrow> world \<Rightarrow> unit promise \<times> world" where
  "sendMetric cfg metric rating' w =
     (if \<not> truthy (apiEndpoint cfg) then (Settled (Fulfilled ()), w)
      else
        (let (sessionId, w1) = getSessionId w in
         (Pending,
          fetch \<lparr> resource = UrlString (the (apiEndpoint cfg) @ ''/web-vitals''),
                  init_method = Some ''POST'',
                  init_body = Some (WebVitalBody
                    \<lparr> wr_metric = metric, wr_rating = rating', wr_sessionId = sessionId,
                      wr_url = href w, wr_userAgent = userAgent w \<rparr>) \<rparr> w1)))"

definition sendMetric_settled :: "response settled \<Rightarrow> world \<Rightarrow> unit settled \<times> world" where
  "sendMetric_settled answer w =
     (case answer of
        Fulfilled r \<Rightarrow> (Fulfilled (), w)
      | Rejected e \<Rightarrow>
          (Fulfilled (), w\<lparr>console := console w @ [''Failed to send web vital metric:'']\<rparr>))"

definition handlePoorPerformance ::
  "MonitoringConfig \<Rightarrow> WebVitalsMetric \<Rightarrow> rating \<Rightarrow> world \<Rightarrow> world" where
  "handlePoorPerformance cfg metric rating' w =
     recordCustomEvent cfg ''performance_issue''
       [ (''type'', S ''web_vital''),
         (''metric'', S (wv_name metric)),
         (''value'', N (wv_value metric)),
         (''rating'', S (rating_text rating')),
         (''threshold'', threshold_val (wv_name metric)) ] w"

definition handleMetric ::
  "MonitoringConfig \<Rightarrow> WebVitalsMetric \<Rightarrow> WebVitalsCollector \<Rightarrow> world
     \<Rightarrow> WebVitalsCollector \<times> world" where
  "handleMetric cfg metric c w =
     (let c1 = c\<lparr>metrics := metrics c @ [metric]\<rparr>;
          rating' = getRating (wv_name metric) (wv_value metric);
          w1 = snd (sendMetric cfg metric rating' w);
          w2 = recordCustomEvent cfg ''web_vital''
                 [ (''name'', S (wv_name metric)),
                   (''value'', N (wv_value metric)),
                   (''rating'', S (rating_text rating')),
                   (''id'', S (wv_id metric)) ] w1;
          w3 = (if rating' = Poor then handlePoorPerformance cfg metric rating' w2 else w2)
      in (c1, w3))"

text \<open>
  The five callbacks that \<^verbatim>\<open>collectMetrics\<close> registers with the \<^verbatim>\<open>web-vitals\<close> library
  differ in the name only: each takes the \<^verbatim>\<open>{ value, delta, id }\<close> that the library
  reports, stamps it with \<^verbatim>\<open>Date.now()\<close> and hands it to \<^verbatim>\<open>handleMetric\<close>.
\<close>

record raw_metric =
  rm_value :: real
  rm_delta :: real
  rm_id :: string

definition collectMetrics_callback ::
  "MonitoringConfig \<Rightarrow> string \<Rightarrow> raw_metric \<Rightarrow> WebVitalsCollector \<Rightarrow> world
     \<Rightarrow> WebVitalsCollector \<times> world" where
  "collectMetrics_callback cfg name metric c w =
     handleMetric cfg
       \<lparr> wv_name = name, wv_value = rm_value metric, wv_delta = rm_delta metric,
         wv_id = rm_id metric, wv_timestamp = now w \<rparr> c w"

definition new_WebVitalsCollector :: WebVitalsCollector where
  "new_WebVitalsCollector = \<lparr> metrics = [] \<rparr>"

text \<open>
  \<^verbatim>\<open>getMetricsSummary\<close>: \<open>summarise\<close> is the callback of its \<^verbatim>\<open>forEach\<close>; the summary is an
  object keyed by metric name, each entry a \<^verbatim>\<open>{ value, rating }\<close>. An entry that is
  present is truthy, so \<^verbatim>\<open>!summary[metric.name]\<close> says that there is none.
\<close>

record summary_entry =
  sm_value :: real
  sm_rating :: rating

definition summarise ::
  "WebVitalsMetric \<Rightarrow> (string \<times> summary_entry) list \<Rightarrow> (string \<times> summary_entry) list" where
  "summarise metric summary =
     (if (case map_of summary (wv_name metric) of
            None \<Rightarrow> True
          | Some entry \<Rightarrow> of_int (wv_timestamp metric) > sm_value entry)
      then AList.update (wv_name metric)
             \<lparr> sm_value = wv_value metric,
               sm_rating = getRating (wv_name metric) (wv_value metric) \<rparr> summary
      else summary)"

definition getMetricsSummary :: "WebVitalsCollector \<Rightarrow> (string \<times> summary_entry) list" where
  "getMetricsSummary c = fold summarise (metrics c) []"

subsection \<open>Runs and observations\<close>






subsection \<open>Example inputs\<close>

definition example_world :: world where
  "example_world =
     \<lparr> now = 1700000000000, random = [''k3j9x0q1z''], href = ''https://app.example/'',
       userAgent = ''Mozilla/5.0'', sessionStorage = [], localStorage = [],
       network = [], console = [], networkErrors = [], customEvents = [] \<rparr>"


text \<open>A development configuration without an endpoint.\<close>

definition local_config :: MonitoringConfig where
  "local_config = monitoringConfig False None None"


text \<open>
  A world with a session last active 25 hours ago, one last active an hour ago, and an
  item that is not a session.
\<close>

definition stale_world :: world where
  "stale_world = example_world
     \<lparr> localStorage :=
         [ (''session_old'', Session \<lparr> sessionId = ''old'', userId = None,
               startTime = 1700000000000 - 26 * 3600000,
               lastActivity = 1700000000000 - 25 * 3600000, pageViews = 3, errors = 0 \<rparr>),
           (''session_new'', Session \<lparr> sessionId = ''new'', userId = None,
               startTime = 1700000000000 - 2 * 3600000,
               lastActivity = 1700000000000 - 1 * 3600000, pageViews = 1, errors = 1 \<rparr>),
           (''userId'', Unparsable ''u-17'') ] \<rparr>"

text \<open>A world in which this tab has its session id and its session stored.\<close>

definition visiting_world :: world where
  "visiting_world = example_world
     \<lparr> sessionStorage := [(''monitoring_session_id'', ''1699999990000-abc'')],
       localStorage :=
         [ (''session_1699999990000-abc'',
            Session \<lparr> sessionId = ''1699999990000-abc'', userId = None,
               startTime = 1699999990000, lastActivity = 1699999995000,
               pageViews = 2, errors = 1 \<rparr>) ] \<rparr>"

text \<open>
  The local variables of a wrapped \<^verbatim>\<open>fetch\<close> that was called 6000 ms before the clock of
  \<open>example_world\<close>, and a response with the status 404.
\<close>

definition slow_call :: fetch_locals where
  "slow_call = \<lparr> fl_startTime = 1700000000000 - 6000,
                  fl_url = ''https://api.example/users'', fl_method = ''GET'' \<rparr>"

definition not_found :: response where
  "not_found = \<lparr> rs_status = 404, rs_statusText = ''Not Found'', rs_content = ''{}'' \<rparr>"

text \<open>
  A collector that received two reports of LCP while the wall clock was set back in
  between (\<^verbatim>\<open>Date.now()\<close> is not monotonic): 2400 when \<^verbatim>\<open>Date.now()\<close> was 1700000001000,
  then 4200 when it was 1700000000400.
\<close>

definition two_reports :: WebVitalsCollector where
  "two_reports =
     (let (c1, w1) = collectMetrics_callback local_config ''LCP''
                       \<lparr> rm_value = 2400, rm_delta = 2400, rm_id = ''v4-1'' \<rparr>
                       new_WebVitalsCollector (example_world\<lparr>now := 1700000001000\<rparr>)
      in fst (collectMetrics_callback local_config ''LCP''
                \<lparr> rm_value = 4200, rm_delta = 1800, rm_id = ''v4-1'' \<rparr>
                c1 (w1\<lparr>now := 1700000000400\<rparr>)))"


section \<open>Properties\<close>

subsection \<open>Storage and the session id\<close>

lemma getItem_setItem:
  "getItem (setItem k v st) k' = (if k' = k then Some v else getItem st k')"
  by (simp add: getItem_def setItem_def update_conv')

lemma getItem_removeItem:
  "getItem (removeItem k st) k' = (if k' = k then None else getItem st k')"
  by (simp add: getItem_def removeItem_def delete_conv')

lemma getSessionId_existing:
  "getItem (sessionStorage w) ''monitoring_session_id'' = Some sid \<Longrightarrow> sid \<noteq> []
   \<Longrightarrow> getSessionId w = (sid, w)"
  by (simp add: getSessionId_def)

lemma getSessionId_result:
  assumes "getSessionId w = (sid, w1)"
  shows "sid \<noteq> []"
    and "getItem (sessionStorage w1) ''monitoring_session_id'' = Some sid"
    and "localStorage w1 = localStorage w"
    and "network w1 = network w"
    and "console w1 = console w"
    and "networkErrors w1 = networkErrors w"
    and "customEvents w1 = customEvents w"
    and "now w1 = now w"
    and "href w1 = href w"
    and "userAgent w1 = userAgent w"
  using assms
  by (cases "getItem (sessionStorage w) ''monitoring_session_id''";
      auto simp: getSessionId_def Let_def getItem_setItem generateId_def
        split: if_splits prod.splits)+


subsection \<open>What the recording functions do to the world\<close>

lemma recordCustomEvent_effect:
  fixes cfg name props w
  defines "w' \<equiv> recordCustomEvent cfg name props w"
  shows "customEvents w' = customEvents w @
           [\<lparr> ev_name = name, properties = props, ev_timestamp = now w,
              ev_sessionId = fst (getSessionId w) \<rparr>]"
    and "networkErrors w' = networkErrors w"
    and "network w' =
           (if truthy (apiEndpoint cfg)
            then network w @
              [\<lparr> resource = UrlString (the (apiEndpoint cfg) @ ''/events''),
                 init_method = Some ''POST'',
                 init_body = Some (EventBody
                   \<lparr> ev_name = name, properties = props, ev_timestamp = now w,
                     ev_sessionId = fst (getSessionId w) \<rparr>) \<rparr>]
            else network w)"
    and "localStorage w' = localStorage w"
    and "sessionStorage w' = sessionStorage (snd (getSessionId w))"
    and "console w' = console w"
    and "now w' = now w"
    and "href w' = href w"
proof -
  obtain sid w1 where g: "getSessionId w = (sid, w1)"
    by (cases "getSessionId w")
  note r = getSessionId_result [OF g]
  have "w' = snd (sendEventToService cfg
      \<lparr> ev_name = name, properties = props, ev_timestamp = now w, ev_sessionId = sid \<rparr>
      (w1\<lparr>customEvents := customEvents w1 @
         [\<lparr> ev_name = name, properties = props, ev_timestamp = now w, ev_sessionId = sid \<rparr>]\<rparr>))"
    by (simp add: w'_def recordCustomEvent_def g Let_def)
  then show "customEvents w' = customEvents w @
           [\<lparr> ev_name = name, properties = props, ev_timestamp = now w,
              ev_sessionId = fst (getSessionId w) \<rparr>]"
    and "networkErrors w' = networkErrors w"
    and "network w' =
           (if truthy (apiEndpoint cfg)
            then network w @
              [\<lparr> resource = UrlString (the (apiEndpoint cfg) @ ''/events''),
                 init_method = Some ''POST'',
                 init_body = Some (EventBody
                   \<lparr> ev_name = name, properties = props, ev_timestamp = now w,
                     ev_sessionId = fst (getSessionId w) \<rparr>) \<rparr>]
            else network w)"
    and "localStorage w' = localStorage w"
    and "sessionStorage w' = sessionStorage (snd (getSessionId w))"
    and "console w' = console w"
    and "now w' = now w"
    and "href w' = href w"
    by (simp_all add: sendEventToService_def fetch_def g r(3-10))
qed

lemma recordNetworkError_effect:
  fixes cfg u m st stt d w
  defines "w' \<equiv> recordNetworkError cfg u m st stt d w"
  shows "networkErrors w' = networkErrors w @
           [\<lparr> url = u, method = m, status = st, statusText = stt, timestamp = now w,
              duration = d, ne_sessionId = fst (getSessionId w) \<rparr>]"
    and "customEvents w' = customEvents w"
    and "network w' =
           (if truthy (apiEndpoint cfg)
            then network w @
              [\<lparr> resource = UrlString (the (apiEndpoint cfg) @ ''/errors''),
                 init_method = Some ''POST'',
                 init_body = Some (ErrorBody (OfNetworkError
                   \<lparr> url = u, method = m, status = st, statusText = stt, timestamp = now w,
                     duration = d, ne_sessionId = fst (getSessionId w) \<rparr>)) \<rparr>]
            else network w)"
    and "localStorage w' = localStorage w"
    and "sessionStorage w' = sessionStorage (snd (getSessionId w))"
    and "console w' = console w"
    and "now w' = now w"
proof -
  obtain sid w1 where g: "getSessionId w = (sid, w1)"
    by (cases "getSessionId w")
  note r = getSessionId_result [OF g]
  have "w' = snd (sendErrorToService cfg (OfNetworkError
      \<lparr> url = u, method = m, status = st, statusText = stt, timestamp = now w,
        duration = d, ne_sessionId = sid \<rparr>)
      (w1\<lparr>networkErrors := networkErrors w1 @
         [\<lparr> url = u, method = m, status = st, statusText = stt, timestamp = now w,
            duration = d, ne_sessionId = sid \<rparr>]\<rparr>))"
    by (simp add: w'_def recordNetworkError_def g Let_def)
  then show "networkErrors w' = networkErrors w @
           [\<lparr> url = u, method = m, status = st, statusText = stt, timestamp = now w,
              duration = d, ne_sessionId = fst (getSessionId w) \<rparr>]"
    and "customEvents w' = customEvents w"
    and "network w' =
           (if truthy (apiEndpoint cfg)
            then network w @
              [\<lparr> resource = UrlString (the (apiEndpoint cfg) @ ''/errors''),
                 init_method = Some ''POST'',
                 init_body = Some (ErrorBody (OfNetworkError
                   \<lparr> url = u, method = m, status = st, statusText = stt, timestamp = now w,
                     duration = d, ne_sessionId = fst (getSessionId w) \<rparr>)) \<rparr>]
            else network w)"
    and "localStorage w' = localStorage w"
    and "sessionStorage w' = sessionStorage (snd (getSessionId w))"
    and "console w' = console w"
    and "now w' = now w"
    by (simp_all add: sendErrorToService_def fetch_def g r(3-10))
qed

subsection \<open>A readable session stays readable\<close>









subsection \<open>The bounded queue\<close>








subsection \<open>The sample rate is not read\<close>


subsection \<open>The sweep of stored sessions\<close>

lemma sweep_key_other:
  "k \<noteq> key \<Longrightarrow> getItem (sweep_key n m key ls) k = getItem ls k"
  by (simp add: sweep_key_def getItem_removeItem split: option.splits stored.splits)

lemma sweep_key_same:
  "getItem (sweep_key n m key ls) key =
     (if startsWith key ''session_'' \<and>
         (case getItem ls key of
            None \<Rightarrow> False
          | Some (Unparsable t) \<Rightarrow> t \<noteq> []
          | Some (Session s) \<Rightarrow> n - lastActivity s > m)
      then None else getItem ls key)"
  by (simp add: sweep_key_def getItem_removeItem split: option.splits stored.splits)

lemma fold_sweep_key:
  "getItem (fold (sweep_key n m) ks ls) k =
     (if k \<in> set ks \<and> startsWith k ''session_'' \<and>
         (case getItem ls k of
            None \<Rightarrow> False
          | Some (Unparsable t) \<Rightarrow> t \<noteq> []
          | Some (Session s) \<Rightarrow> n - lastActivity s > m)
      then None else getItem ls k)"
proof (induction ks arbitrary: ls)
  case Nil
  then show ?case by simp
next
  case (Cons key ks)
  show ?case
  proof (cases "k = key")
    case True
    have "getItem (fold (sweep_key n m) (key # ks) ls) k =
            getItem (fold (sweep_key n m) ks (sweep_key n m k ls)) k"
      using True by simp
    then show ?thesis
      unfolding Cons.IH using True
      by (auto simp: sweep_key_same split: option.splits stored.splits)
  next
    case False
    then show ?thesis
      by (simp add: Cons.IH sweep_key_other)
  qed
qed

lemma getItem_keys: "getItem ls k \<noteq> None \<Longrightarrow> k \<in> set (keys ls)"
  by (simp add: getItem_def keys_def map_of_eq_None_iff)

subsection \<open>The wrapped fetch\<close>

lemma getSessionId_recordCustomEvent:
  "fst (getSessionId (recordCustomEvent cfg name props w)) = fst (getSessionId w)"
proof -
  obtain sid w1 where g: "getSessionId w = (sid, w1)"
    by (cases "getSessionId w")
  have "getSessionId (recordCustomEvent cfg name props w) =
          (sid, recordCustomEvent cfg name props w)"
    by (rule getSessionId_existing)
       (simp_all add: recordCustomEvent_effect g getSessionId_result [OF g])
  then show ?thesis by (simp add: g)
qed

lemma wrappedFetch_settled_result:
  "fst (wrappedFetch_settled cfg l answer w) = answer"
  by (cases answer) (simp_all add: wrappedFetch_settled_def Let_def)

lemma wrappedFetch_settled_networkErrors:
  "networkErrors (snd (wrappedFetch_settled cfg l (Fulfilled response) w)) =
     networkErrors w @
       (if ok response then []
        else [\<lparr> url = fl_url l, method = fl_method l, status = rs_status response,
                 statusText = rs_statusText response, timestamp = now w,
                 duration = now w - fl_startTime l, ne_sessionId = fst (getSessionId w) \<rparr>])"
  "networkErrors (snd (wrappedFetch_settled cfg l (Rejected e) w)) =
     networkErrors w @
       [\<lparr> url = fl_url l, method = fl_method l, status = 0,
          statusText = ''Network Error'', timestamp = now w,
          duration = now w - fl_startTime l, ne_sessionId = fst (getSessionId w) \<rparr>]"
  by (simp_all add: wrappedFetch_settled_def Let_def recordNetworkError_effect
      recordCustomEvent_effect getSessionId_recordCustomEvent)

lemma wrappedFetch_settled_customEvents:
  "customEvents (snd (wrappedFetch_settled cfg l (Fulfilled response) w)) =
     customEvents w @
       (if now w - fl_startTime l > 5000
        then [\<lparr> ev_name = ''slow_request'',
                 properties =
                   [ (''url'', S (fl_url l)), (''method'', S (fl_method l)),
                     (''duration'', N (of_int (now w - fl_startTime l))),
                     (''status'', N (of_int (rs_status response))) ],
                 ev_timestamp = now w, ev_sessionId = fst (getSessionId w) \<rparr>]
        else [])"
  "customEvents (snd (wrappedFetch_settled cfg l (Rejected e) w)) = customEvents w"
  by (simp_all add: wrappedFetch_settled_def Let_def recordNetworkError_effect
      recordCustomEvent_effect)

subsection \<open>The summary of the metrics\<close>

lemma handleMetric_metrics:
  "metrics (fst (handleMetric cfg metric c w)) = metrics c @ [metric]"
  by (simp add: handleMetric_def Let_def)

lemma getMetricsSummary_two:
  assumes "wv_name m2 = wv_name m1"
  shows "getMetricsSummary \<lparr> metrics = [m1, m2] \<rparr> =
           [(wv_name m1,
             if of_int (wv_timestamp m2) > wv_value m1
             then \<lparr> sm_value = wv_value m2, sm_rating = getRating (wv_name m1) (wv_value m2) \<rparr>
             else \<lparr> sm_value = wv_value m1, sm_rating = getRating (wv_name m1) (wv_value m1) \<rparr>)]"
  using assms by (simp add: getMetricsSummary_def summarise_def)

subsection \<open>The claims\<close>







text \<open>
  Claim C2, as the code has it. \<^verbatim>\<open>cleanupExpiredSessions()\<close> takes no argument and returns
  nothing. With its fixed maximal age of 24 hours it removes from \<^verbatim>\<open>localStorage\<close> exactly
  the items under a key starting with \<^verbatim>\<open>session_\<close> that hold a session with
  \<open>now - lastActivity > 24 h\<close> or a non-empty text that does not parse, and leaves every
  other item as it is. A session last active 25 hours ago is removed, one last active
  an hour ago is kept.
\<close>

theorem cleanupExpiredSessions_sweep:
  "fst (cleanupExpiredSessions w) = Undefined
   \<and> getItem (localStorage (snd (cleanupExpiredSessions w))) key =
       (if startsWith key ''session_'' \<and>
           (case getItem (localStorage w) key of
              None \<Rightarrow> False
            | Some (Unparsable t) \<Rightarrow> t \<noteq> []
            | Some (Session s) \<Rightarrow> now w - lastActivity s > 24 * 60 * 60 * 1000)
        then None else getItem (localStorage w) key)
   \<and> (startsWith key ''session_'' \<and> getItem (localStorage w) key = Some (Session old)
        \<and> lastActivity old = now w - 25 * 60 * 60 * 1000
      \<longrightarrow> getItem (localStorage (snd (cleanupExpiredSessions w))) key = None)
   \<and> (getItem (localStorage w) key = Some (Session new)
        \<and> lastActivity new = now w - 1 * 60 * 60 * 1000
      \<longrightarrow> getItem (localStorage (snd (cleanupExpiredSessions w))) key = Some (Session new))"
proof -
  have g: "getItem (localStorage (snd (cleanupExpiredSessions w))) key =
       (if startsWith key ''session_'' \<and>
           (case getItem (localStorage w) key of
              None \<Rightarrow> False
            | Some (Unparsable t) \<Rightarrow> t \<noteq> []
            | Some (Session s) \<Rightarrow> now w - lastActivity s > 24 * 60 * 60 * 1000)
        then None else getItem (localStorage w) key)"
    using getItem_keys [of "localStorage w" key]
    by (auto simp: cleanupExpiredSessions_def Let_def fold_sweep_key
        split: option.splits stored.splits)
  show ?thesis
    unfolding g by (simp add: cleanupExpiredSessions_def Let_def)
qed

theorem cleanupExpiredSessions_sweep_witness:
  "fst (cleanupExpiredSessions stale_world) = Undefined
   \<and> getItem (localStorage (snd (cleanupExpiredSessions stale_world))) ''session_old'' = None
   \<and> getItem (localStorage (snd (cleanupExpiredSessions stale_world))) ''session_new'' =
       getItem (localStorage stale_world) ''session_new''
   \<and> getItem (localStorage (snd (cleanupExpiredSessions stale_world))) ''userId'' =
       Some (Unparsable ''u-17'')"
  using cleanupExpiredSessions_sweep [of stale_world "''session_old''"]
    cleanupExpiredSessions_sweep [of stale_world "''session_new''"]
    cleanupExpiredSessions_sweep [of stale_world "''userId''"]
  by (simp add: stale_world_def example_world_def getItem_def)

text \<open>
  Claim C2 as stated fails: the sweep that removes the one session 25 hours old does not
  return 1 (it returns nothing).
\<close>

theorem cleanupExpiredSessions_returns_nothing:
  "getItem (localStorage stale_world) ''session_old'' \<noteq> None
   \<and> getItem (localStorage (snd (cleanupExpiredSessions stale_world))) ''session_old'' = None
   \<and> fst (cleanupExpiredSessions stale_world) \<noteq> N 1"
  by (simp add: cleanupExpiredSessions_def Let_def stale_world_def example_world_def keys_def
      sweep_key_def getItem_def removeItem_def AList.delete_eq)

text \<open>
  Claim C3 at a failing input. Two reports of LCP arrive: 2400, stamped 1700000001000,
  and then, the wall clock having been set back, 4200, stamped 1700000000400. The record
  with the most recent time stamp is the first (2400, good); the summary holds the
  second (4200, poor), the one stamped earlier: \<^verbatim>\<open>getMetricsSummary\<close> compares the time
  stamp of a record with the \<^emph>\<open>value\<close> of the entry it has, not with that entry's time
  stamp.
\<close>

theorem getMetricsSummary_returns_earlier_stamp:
  "metrics two_reports =
     [ \<lparr> wv_name = ''LCP'', wv_value = 2400, wv_delta = 2400, wv_id = ''v4-1'',
         wv_timestamp = 1700000001000 \<rparr>,
       \<lparr> wv_name = ''LCP'', wv_value = 4200, wv_delta = 1800, wv_id = ''v4-1'',
         wv_timestamp = 1700000000400 \<rparr> ]
   \<and> (1700000000400 :: int) < 1700000001000
   \<and> getMetricsSummary two_reports = [(''LCP'', \<lparr> sm_value = 4200, sm_rating = Poor \<rparr>)]
   \<and> getRating ''LCP'' 2400 = Good"
proof -
  have m: "metrics two_reports =
     [ \<lparr> wv_name = ''LCP'', wv_value = 2400, wv_delta = 2400, wv_id = ''v4-1'',
         wv_timestamp = 1700000001000 \<rparr>,
       \<lparr> wv_name = ''LCP'', wv_value = 4200, wv_delta = 1800, wv_id = ''v4-1'',
         wv_timestamp = 1700000000400 \<rparr> ]"
    by (simp add: two_reports_def collectMetrics_callback_def handleMetric_metrics
        new_WebVitalsCollector_def split: prod.splits)
       (simp add: handleMetric_def Let_def)
  have r: "getRating ''LCP'' 4200 = Poor" "getRating ''LCP'' 2400 = Good"
    by (simp_all add: getRating_def performanceThresholds_def)
  show ?thesis
    by (simp add: m r getMetricsSummary_def summarise_def)
qed

text \<open>
  Claim C6. The wrapper around \<^verbatim>\<open>fetch\<close> hands its arguments to the transport unchanged and
  hands the transport's answer to its caller unchanged: the same response when the
  transport resolves (a 404 resolves, it is not thrown), the same error when it fails.
  For a response with status 404 the call records exactly one network error, with status
  404; for a failure of the transport it records exactly one, with status 0, and the
  error is rethrown.
\<close>

theorem wrappedFetch_transparent:
  "fst (wrappedFetch_settled cfg l answer w) = answer
   \<and> snd (wrappedFetch args w) = w\<lparr>network := network w @ [args]\<rparr>
   \<and> (rs_status response = 404 \<longrightarrow>
        fst (wrappedFetch_settled cfg l (Fulfilled response) w) = Fulfilled response
        \<and> networkErrors (snd (wrappedFetch_settled cfg l (Fulfilled response) w)) =
            networkErrors w @
              [\<lparr> url = fl_url l, method = fl_method l, status = 404,
                 statusText = rs_statusText response, timestamp = now w,
                 duration = now w - fl_startTime l, ne_sessionId = fst (getSessionId w) \<rparr>])
   \<and> fst (wrappedFetch_settled cfg l (Rejected e) w) = Rejected e
   \<and> networkErrors (snd (wrappedFetch_settled cfg l (Rejected e) w)) =
       networkErrors w @
         [\<lparr> url = fl_url l, method = fl_method l, status = 0,
            statusText = ''Network Error'', timestamp = now w,
            duration = now w - fl_startTime l, ne_sessionId = fst (getSessionId w) \<rparr>]"
  by (simp add: wrappedFetch_settled_result wrappedFetch_settled_networkErrors
      wrappedFetch_def ok_def)

theorem wrappedFetch_transparent_witness:
  "fst (wrappedFetch_settled local_config slow_call (Fulfilled not_found) example_world) =
     Fulfilled not_found
   \<and> map status (networkErrors (snd (wrappedFetch_settled local_config slow_call
         (Fulfilled not_found) example_world))) = [404]
   \<and> fst (wrappedFetch_settled local_config slow_call (Rejected (new_Error ''Failed to fetch''))
         example_world) = Rejected (new_Error ''Failed to fetch'')
   \<and> map status (networkErrors (snd (wrappedFetch_settled local_config slow_call
         (Rejected (new_Error ''Failed to fetch'')) example_world))) = [0]"
proof -
  have s: "rs_status not_found = 404" by (simp add: not_found_def)
  have n: "networkErrors example_world = []" by (simp add: example_world_def)
  show ?thesis
    using wrappedFetch_transparent [of local_config slow_call "Fulfilled not_found"
        example_world _ not_found "new_Error ''Failed to fetch''"]
    by (simp add: s n)
qed

text \<open>
  Claim C7, as the code has it. A wrapped \<^verbatim>\<open>fetch\<close> that took more than 5000 ms emits
  one \<^verbatim>\<open>slow_request\<close> event when the transport answered with a response, whatever the
  status of the response; when the transport failed without a response it emits no
  event.
\<close>

theorem slow_request_when_answered:
  assumes "now w - fl_startTime l > 5000"
  shows "customEvents (snd (wrappedFetch_settled cfg l (Fulfilled response) w)) =
           customEvents w @
             [\<lparr> ev_name = ''slow_request'',
                properties =
                  [ (''url'', S (fl_url l)), (''method'', S (fl_method l)),
                    (''duration'', N (of_int (now w - fl_startTime l))),
                    (''status'', N (of_int (rs_status response))) ],
                ev_timestamp = now w, ev_sessionId = fst (getSessionId w) \<rparr>]
         \<and> customEvents (snd (wrappedFetch_settled cfg l (Rejected e) w)) = customEvents w"
  using assms by (simp add: wrappedFetch_settled_customEvents)

theorem slow_request_when_answered_witness:
  "now example_world - fl_startTime slow_call = 6000
   \<and> map ev_name (customEvents (snd (wrappedFetch_settled local_config slow_call
         (Fulfilled not_found) example_world))) = [''slow_request'']"
proof -
  have d: "now example_world - fl_startTime slow_call = 6000"
    by (simp add: example_world_def slow_call_def)
  then have g: "now example_world - fl_startTime slow_call > 5000" by simp
  have n: "customEvents example_world = []" by (simp add: example_world_def)
  show ?thesis
    using slow_request_when_answered [OF g, of local_config not_found] d
    by (simp add: n)
qed

text \<open>
  Claim C7 as stated fails: a call that fails at the transport after 6000 ms records its
  network error with status 0 and emits no \<^verbatim>\<open>slow_request\<close> event.
\<close>

theorem slow_failure_emits_no_slow_request:
  "now example_world - fl_startTime slow_call = 6000
   \<and> customEvents (snd (wrappedFetch_settled local_config slow_call
         (Rejected (new_Error ''Failed to fetch'')) example_world)) = []
   \<and> map status (networkErrors (snd (wrappedFetch_settled local_config slow_call
         (Rejected (new_Error ''Failed to fetch'')) example_world))) = [0]"
  by (simp add: wrappedFetch_settled_customEvents wrappedFetch_settled_networkErrors
      example_world_def slow_call_def)

text \<open>
  Claim C8. \<^verbatim>\<open>shouldIgnoreError\<close> is a function of the error (or message) and the URL
  alone, with the fixed \<^verbatim>\<open>errorFilters\<close>: it takes no world and returns none. For every
  message that matches one of the configured patterns it returns true, whatever the URL,
  and then \<^verbatim>\<open>reportError\<close> and the two listeners leave the handler (its queue) and the
  world as they are. The message \<^verbatim>\<open>Script error\<close> is ignored,
  \<^verbatim>\<open>Cannot read property x of undefined\<close> is not.
\<close>

theorem shouldIgnoreError_matching:
  assumes "pattern \<in> set (ignoreMessages errorFilters)"
    and "test pattern (message err)"
  shows "shouldIgnoreError (AnError err) url'
         \<and> shouldIgnoreError (AString (message err)) url'
         \<and> reportError cfg err ctx h w = (Inr (), h, w)
         \<and> handleGlobalError cfg (event\<lparr>ee_error := Some err\<rparr>) h w = (Inr (), h, w)
         \<and> handleGlobalError cfg (event\<lparr>ee_error := None, ee_message := message err\<rparr>) h w =
             (Inr (), h, w)
         \<and> handleUnhandledRejection cfg (ErrorReason err) h w = (Inr False, h, w)
         \<and> handleUnhandledRejection cfg (TextReason (message err)) h w = (Inr False, h, w)
         \<and> shouldIgnoreError (AString ''Script error'') None
         \<and> \<not> shouldIgnoreError (AString ''Cannot read property x of undefined'') None"
proof -
  from assms have m: "list_ex (\<lambda>pattern. test pattern (message err)) (ignoreMessages errorFilters)"
    by (auto simp: list_ex_iff)
  then have i: "\<And>u. shouldIgnoreError (AnError err) u"
    "\<And>u. shouldIgnoreError (AString (message err)) u"
    "\<And>u. shouldIgnoreError (AnError (new_Error (message err))) u"
    by (simp_all add: shouldIgnoreError_def new_Error_def)
  have "shouldIgnoreError (AString ''Script error'') None"
    by (simp add: shouldIgnoreError_def errorFilters_def)
  moreover have "\<not> shouldIgnoreError (AString ''Cannot read property x of undefined'') None"
    by (simp add: shouldIgnoreError_def errorFilters_def)
  ultimately show ?thesis
    using i by (simp add: reportError_def handleGlobalError_def handleUnhandledRejection_def)
qed

theorem shouldIgnoreError_matching_witness:
  "shouldIgnoreError (AnError (new_Error ''Uncaught Script error.'')) None
   \<and> reportError local_config (new_Error ''Uncaught Script error.'') [] new_GlobalErrorHandler
        example_world = (Inr (), new_GlobalErrorHandler, example_world)"
proof -
  have a: "Contains ''Script error'' \<in> set (ignoreMessages errorFilters)"
    by (simp add: errorFilters_def)
  have b: "test (Contains ''Script error'') (message (new_Error ''Uncaught Script error.''))"
    by (simp add: new_Error_def)
  show ?thesis
    using shouldIgnoreError_matching [OF a b, of None local_config "[]" new_GlobalErrorHandler
        example_world]
    by simp
qed

text \<open>
  Claim C9. Without an endpoint (none configured, or the empty text) each of the four
  delivery functions returns a promise that is already fulfilled and leaves the world as
  it is: no call of \<^verbatim>\<open>fetch\<close>, nothing thrown, for every record; and the recording functions
  that feed them make no network call either.
\<close>

theorem delivery_without_endpoint:
  assumes "\<not> truthy (apiEndpoint cfg)"
  shows "sendMetricToService cfg metric w = (Settled (Fulfilled ()), w)
         \<and> sendErrorToService cfg report w = (Settled (Fulfilled ()), w)
         \<and> sendEventToService cfg event w = (Settled (Fulfilled ()), w)
         \<and> sendMetric cfg vital rating' w = (Settled (Fulfilled ()), w)
         \<and> network (recordPerformanceMetric cfg name v w) = network w
         \<and> network (recordNetworkError cfg u m st stt d w) = network w
         \<and> network (recordCustomEvent cfg name props w) = network w"
proof -
  have "network (recordPerformanceMetric cfg name v w) = network w"
    using assms
    by (cases "getSessionId w")
       (simp add: recordPerformanceMetric_def sendMetricToService_def Let_def
          getSessionId_result)
  then show ?thesis
    using assms
    by (simp add: sendMetricToService_def sendErrorToService_def sendEventToService_def
        sendMetric_def recordNetworkError_effect recordCustomEvent_effect)
qed

theorem delivery_without_endpoint_witness:
  "sendErrorToService local_config (OfNetworkError
       \<lparr> url = ''https://api.example/users'', method = ''GET'', status = 404,
          statusText = ''Not Found'', timestamp = 1700000000000, duration = 120,
          ne_sessionId = ''1699999990000-abc'' \<rparr>) example_world =
     (Settled (Fulfilled ()), example_world)
   \<and> network (recordCustomEvent local_config ''resource_error'' [] example_world) = []"
proof -
  have e: "\<not> truthy (apiEndpoint local_config)"
    by (simp add: local_config_def monitoringConfig_def)
  have n: "network example_world = []" by (simp add: example_world_def)
  show ?thesis
    using delivery_without_endpoint [OF e, of _ example_world _ _ _ _ "''resource_error''"]
    by (simp add: n)
qed

text \<open>
  Claim C10. When the tab has its session id and a session is stored for it,
  \<^verbatim>\<open>getUserSession\<close> returns that session with \<^verbatim>\<open>lastActivity\<close> set to the current time and
  stores it again; \<^verbatim>\<open>sessionId\<close>, \<^verbatim>\<open>startTime\<close>, \<^verbatim>\<open>pageViews\<close> and \<^verbatim>\<open>errors\<close> are as they were,
  and nothing else in the world changes.
\<close>

theorem getUserSession_touches_lastActivity:
  assumes "getItem (sessionStorage w) ''monitoring_session_id'' = Some sid"
    and "sid \<noteq> []"
    and "getItem (localStorage w) (''session_'' @ sid) = Some (Session s)"
  shows "getUserSession w =
           (Inr (s\<lparr>lastActivity := now w\<rparr>),
            w\<lparr>localStorage :=
                 setItem (''session_'' @ sid) (Session (s\<lparr>lastActivity := now w\<rparr>))
                   (localStorage w)\<rparr>)
         \<and> getItem (localStorage (snd (getUserSession w))) (''session_'' @ sid) =
             Some (Session (s\<lparr>lastActivity := now w\<rparr>))
         \<and> lastActivity (s\<lparr>lastActivity := now w\<rparr>) = now w
         \<and> sessionId (s\<lparr>lastActivity := now w\<rparr>) = sessionId s
         \<and> startTime (s\<lparr>lastActivity := now w\<rparr>) = startTime s
         \<and> pageViews (s\<lparr>lastActivity := now w\<rparr>) = pageViews s
         \<and> errors (s\<lparr>lastActivity := now w\<rparr>) = errors s"
  using assms
  by (simp add: getUserSession_def getSessionId_existing Let_def getItem_setItem)

theorem getUserSession_touches_lastActivity_witness:
  "fst (getUserSession visiting_world) =
     Inr \<lparr> sessionId = ''1699999990000-abc'', userId = None, startTime = 1699999990000,
           lastActivity = 1700000000000, pageViews = 2, errors = 1 \<rparr>
   \<and> getItem (localStorage (snd (getUserSession visiting_world))) ''session_1699999990000-abc'' =
     Some (Session \<lparr> sessionId = ''1699999990000-abc'', userId = None,
           startTime = 1699999990000, lastActivity = 1700000000000, pageViews = 2,
           errors = 1 \<rparr>)"
proof -
  have a: "getItem (sessionStorage visiting_world) ''monitoring_session_id'' =
             Some ''1699999990000-abc''"
    by (simp add: visiting_world_def example_world_def getItem_def)
  have b: "''1699999990000-abc'' \<noteq> []" by simp
  have c: "getItem (localStorage visiting_world) (''session_'' @ ''1699999990000-abc'') =
             Some (Session \<lparr> sessionId = ''1699999990000-abc'', userId = None,
               startTime = 1699999990000, lastActivity = 1699999995000,
               pageViews = 2, errors = 1 \<rparr>)"
    by (simp add: visiting_world_def example_world_def getItem_def)
  have n: "now visiting_world = 1700000000000"
    by (simp add: visiting_world_def example_world_def)
  show ?thesis
    using getUserSession_touches_lastActivity [OF a b c]
    by (simp add: n getItem_setItem)
qed

text \<open>
  Claim C5. The rating uses the fixed thresholds with inclusive upper bounds:
  an LCP of 2000 is good, of 3000 needs improvement, of 5000 is poor, the boundary 2500
  is still good and 2500.001 already needs improvement; and for every value the rating
  of LCP, FID, CLS, FCP and TTFB is good up to and including the first threshold
  (2500, 100, 0.1, 1800, 800), needs-improvement up to and including the second
  (4000, 300, 0.25, 3000, 1800), and poor above.
\<close>

theorem getRating_thresholds:
  "getRating ''LCP'' 2000 = Good
   \<and> getRating ''LCP'' 3000 = NeedsImprovement
   \<and> getRating ''LCP'' 5000 = Poor
   \<and> getRating ''LCP'' 2500 = Good
   \<and> getRating ''LCP'' 2500.001 = NeedsImprovement
   \<and> getRating ''LCP'' v =
        (if v \<le> 2500 then Good else if v \<le> 4000 then NeedsImprovement else Poor)
   \<and> getRating ''FID'' v =
        (if v \<le> 100 then Good else if v \<le> 300 then NeedsImprovement else Poor)
   \<and> getRating ''CLS'' v =
        (if v \<le> 0.1 then Good else if v \<le> 0.25 then NeedsImprovement else Poor)
   \<and> getRating ''FCP'' v =
        (if v \<le> 1800 then Good else if v \<le> 3000 then NeedsImprovement else Poor)
   \<and> getRating ''TTFB'' v =
        (if v \<le> 800 then Good else if v \<le> 1800 then NeedsImprovement else Poor)"
  by (simp add: getRating_def performanceThresholds_def)

end
